theory Spec2Isabelle
  imports Main "HOL-Library.AList"
begin

section \<open>Strings\<close>

text \<open>
  A Python \<open>str\<close> is modelled as a \<open>string\<close>; a character stands for the code point of
  the same number, so the model covers the code points below 256.
\<close>

definition isspace :: "char \<Rightarrow> bool" where
  \<comment> \<open>The code points below 256 that \<open>str.isspace\<close> accepts: tab, line feed, vertical tab,
      form feed, carriage return, the four separators 0x1C to 0x1F, space, 0x85 and 0xA0.\<close>
  "isspace c =
     (let n = (of_char c :: nat)
      in (9 \<le> n \<and> n \<le> 13) \<or> (28 \<le> n \<and> n \<le> 32) \<or> n = 133 \<or> n = 160)"

definition lstrip :: "string \<Rightarrow> string" where
  "lstrip s = dropWhile isspace s"

definition strip :: "string \<Rightarrow> string" where
  \<comment> \<open>\<open>str.strip()\<close> with no argument: whitespace is dropped at both ends.\<close>
  "strip s = rev (dropWhile isspace (rev (dropWhile isspace s)))"

definition str_replace :: "char \<Rightarrow> string \<Rightarrow> string \<Rightarrow> string" where
  \<comment> \<open>\<open>s.replace(old, new)\<close> for a pattern \<open>old\<close> of one character: every occurrence
      is replaced, left to right.\<close>
  "str_replace old new s = concat (map (\<lambda>c. if c = old then new else [c]) s)"

section \<open>Column Normalizer\<close>

definition clean :: "string \<Rightarrow> string" where
  \<comment> \<open>\<open>_clean\<close>: \<open>col.strip().replace(" ", "_").replace("-", "_").replace(".", "")\<close>\<close>
  "clean col =
     str_replace (CHR ''.'') ''''
       (str_replace (CHR ''-'') ''_''
         (str_replace (CHR '' '') ''_'' (strip col)))"

section \<open>Text helpers\<close>

definition toupper :: "char \<Rightarrow> char" where
  "toupper c =
     (case map_of (zip ''abcdefghijklmnopqrstuvwxyz'' ''ABCDEFGHIJKLMNOPQRSTUVWXYZ'') c of
        Some u \<Rightarrow> u
      | None \<Rightarrow> c)"

definition upper :: "string \<Rightarrow> string" where
  \<comment> \<open>\<open>str.upper()\<close> on the ASCII letters. The other code points below 256 are left as they
      are: Python maps them to non-ASCII letters or to \<open>SS\<close>, neither of which changes
      whether the result starts with \<open>SELECT\<close>.\<close>
  "upper s = map toupper s"

definition startswith :: "string \<Rightarrow> string \<Rightarrow> bool" where
  "startswith s p = (take (length p) s = p)"

fun join :: "string \<Rightarrow> string list \<Rightarrow> string" where
  "join sep [] = []"
| "join sep [x] = x"
| "join sep (x # y # zs) = x @ sep @ join sep (y # zs)"

fun str_nat :: "nat \<Rightarrow> string" where
  "str_nat n =
     (if n < 10 then [''0123456789'' ! n]
      else str_nat (n div 10) @ [''0123456789'' ! (n mod 10)])"

declare str_nat.simps [simp del]

definition str_int :: "int \<Rightarrow> string" where
  "str_int i = (if i < 0 then ''-'' @ str_nat (nat (- i)) else str_nat (nat i))"

definition dq :: char where
  \<comment> \<open>the double quote\<close>
  "dq = CHR 0x22"

definition bs :: char where
  \<comment> \<open>the backslash\<close>
  "bs = CHR 0x5C"

definition nl :: char where
  \<comment> \<open>the line feed\<close>
  "nl = CHR 0x0A"

section \<open>Exceptions\<close>

datatype exn =
    SqliteError string  \<comment> \<open>\<open>sqlite3.Error\<close> and its subclasses, with the message\<close>
  | CsvError string  \<comment> \<open>\<open>csv.Error\<close>, with the message\<close>
  | StopIteration
  | UnicodeDecodeError
  | OSError
  | TypeError
  | BadArguments  \<comment> \<open>\<open>json.loads\<close> rejects the arguments, or they hold no \<open>query\<close>\<close>
  | OtherError string  \<comment> \<open>any other exception, of the driver or of the agent's client\<close>

section \<open>Values and their JSON text\<close>

datatype sqlvalue =
    SNull
  | SInt int
  | SReal string  \<comment> \<open>a float, carried as the text \<open>json.dumps\<close> writes for it\<close>
  | SText string
  | SBlob string

definition hex4 :: "nat \<Rightarrow> string" where
  "hex4 n =
     [''0123456789abcdef'' ! (n div 4096 mod 16), ''0123456789abcdef'' ! (n div 256 mod 16),
      ''0123456789abcdef'' ! (n div 16 mod 16), ''0123456789abcdef'' ! (n mod 16)]"

definition escape_char :: "char \<Rightarrow> string" where
  \<comment> \<open>\<open>json.encoder\<close> with \<open>ensure_ascii\<close>: the quote, the backslash and everything outside
      space to tilde are escaped.\<close>
  "escape_char c =
     (if c = dq then [bs, dq]
      else if c = bs then [bs, bs]
      else if c = nl then [bs, CHR ''n'']
      else if c = CHR 0x0D then [bs, CHR ''r'']
      else if c = CHR 0x09 then [bs, CHR ''t'']
      else if c = CHR 0x0C then [bs, CHR ''f'']
      else if c = CHR 0x08 then [bs, CHR ''b'']
      else if 32 \<le> (of_char c :: nat) \<and> (of_char c :: nat) \<le> 126 then [c]
      else bs # CHR ''u'' # hex4 (of_char c))"

definition json_str :: "string \<Rightarrow> string" where
  "json_str s = [dq] @ concat (map escape_char s) @ [dq]"

fun json_value :: "sqlvalue \<Rightarrow> exn + string" where
  "json_value SNull = Inr ''null''"
| "json_value (SInt i) = Inr (str_int i)"
| "json_value (SReal r) = Inr r"
| "json_value (SText t) = Inr (json_str t)"
| "json_value (SBlob b) = Inl TypeError"

fun traverse :: "('a \<Rightarrow> exn + 'b) \<Rightarrow> 'a list \<Rightarrow> exn + 'b list" where
  "traverse f [] = Inr []"
| "traverse f (x # xs) =
     (case f x of
        Inl e \<Rightarrow> Inl e
      | Inr y \<Rightarrow> (case traverse f xs of Inl e \<Rightarrow> Inl e | Inr ys \<Rightarrow> Inr (y # ys)))"

definition json_item :: "string \<times> sqlvalue \<Rightarrow> exn + string" where
  "json_item kv =
     (case json_value (snd kv) of
        Inl e \<Rightarrow> Inl e
      | Inr v \<Rightarrow> Inr (json_str (fst kv) @ '': '' @ v))"

definition json_dict :: "(string \<times> sqlvalue) list \<Rightarrow> exn + string" where
  \<comment> \<open>a dict at nesting level 1 under \<open>indent=2\<close>\<close>
  "json_dict d =
     (if d = [] then Inr ''{}''
      else (case traverse json_item d of
              Inl e \<Rightarrow> Inl e
            | Inr items \<Rightarrow>
                Inr (''{'' @ nl # ''    '' @ join ('','' @ nl # ''    '') items
                      @ nl # ''  '' @ ''}'')))"

definition json_dumps :: "(string \<times> sqlvalue) list list \<Rightarrow> exn + string" where
  \<comment> \<open>\<open>json.dumps(rows, indent=2)\<close> for a list of dicts\<close>
  "json_dumps rows =
     (if rows = [] then Inr ''[]''
      else (case traverse json_dict rows of
              Inl e \<Rightarrow> Inl e
            | Inr ds \<Rightarrow> Inr (''['' @ nl # ''  '' @ join ('','' @ nl # ''  '') ds @ nl # '']'')))"

definition row_dict :: "string list \<Rightarrow> sqlvalue list \<Rightarrow> (string \<times> sqlvalue) list" where
  \<comment> \<open>\<open>dict(zip(names, r))\<close>: a repeated name keeps its first position and its last value\<close>
  "row_dict names r = foldl (\<lambda>d kv. AList.update (fst kv) (snd kv) d) [] (zip names r)"

section \<open>The store\<close>

text \<open>
  The relational engine is outside the repository. It is a parameter of the model: a
  record of the operations the program calls, over the contents \<open>'f\<close> of a store file.
\<close>

record cursor =
  cur_description :: "string list"  \<comment> \<open>the column names of the result\<close>
  cur_rows :: "sqlvalue list list"
  cur_changes :: nat  \<comment> \<open>the rows the statement inserted, updated or deleted\<close>

record 'f engine =
  empty_db :: 'f
    \<comment> \<open>the file \<open>sqlite3.connect\<close> creates where there is none\<close>
  has_table :: "'f \<Rightarrow> string \<Rightarrow> string + bool"
    \<comment> \<open>\<open>SELECT 1 FROM sqlite_master WHERE type='table' AND name=?\<close> has a row;
        \<open>Inl\<close> is the message of the \<open>sqlite3.Error\<close> raised instead\<close>
  execute :: "'f \<Rightarrow> string \<Rightarrow> sqlvalue list \<Rightarrow> exn + 'f \<times> cursor"
    \<comment> \<open>one statement with its bound parameters, and all its rows fetched\<close>
  executescript :: "'f \<Rightarrow> string \<Rightarrow> 'f \<times> nat \<times> exn option"
    \<comment> \<open>a script, run in autocommit mode: the contents it leaves, the rows it changed
        and the exception that stopped it, if any\<close>

record 'f connection =
  store :: 'f
  total_changes :: nat

type_synonym path = "string list"

definition name :: "path \<Rightarrow> string" where
  \<comment> \<open>\<open>Path.name\<close>: the final component\<close>
  "name p = (if p = [] then [] else last p)"

datatype csv_item =
    Fields "string list"
  | Malformed string  \<comment> \<open>the reader raises \<open>csv.Error\<close> at this record\<close>
  | Undecodable  \<comment> \<open>the bytes of this record are not UTF-8\<close>

datatype node =
    Directory
  | File "csv_item list"  \<comment> \<open>a text file, as the records \<open>csv.reader\<close> yields from it\<close>

datatype level = INFO | WARNING | ERROR

datatype logarg = AStr string | APath path | ANat nat

type_synonym log_entry = "level \<times> string \<times> logarg list"

record 'f world =
  files :: "path \<Rightarrow> node option"
  database :: "'f option"  \<comment> \<open>the file at \<open>DATABASE\<close>; \<open>None\<close> when it does not exist\<close>
  logs :: "log_entry list"
  stdout :: "string list"

definition TABLE :: string where
  "TABLE = ''freelancer_earnings_bd''"

definition DATABASE :: path where
  "DATABASE = [''database.db'']"

definition connect :: "'f engine \<Rightarrow> 'f world \<Rightarrow> 'f connection" where
  \<comment> \<open>\<open>sqlite3.connect(DATABASE)\<close>: a new connection, whose change counter starts at 0\<close>
  "connect eng w =
     \<lparr>store = (case database w of None \<Rightarrow> empty_db eng | Some f \<Rightarrow> f), total_changes = 0\<rparr>"

definition log_to :: "level \<Rightarrow> string \<Rightarrow> logarg list \<Rightarrow> 'f world \<Rightarrow> 'f world" where
  "log_to lv msg args w = w\<lparr>logs := logs w @ [(lv, msg, args)]\<rparr>"

section \<open>Dataset Importer\<close>

definition quoted :: "string \<Rightarrow> string" where
  "quoted c = dq # c @ [dq]"

definition handle_import :: "exn \<Rightarrow> 'f world \<Rightarrow> (exn + bool) \<times> 'f world" where
  \<comment> \<open>\<open>except (csv.Error, sqlite3.Error) as exc\<close>; any other exception goes on to the caller\<close>
  "handle_import e w =
     (case e of
        SqliteError m \<Rightarrow> (Inr False, log_to ERROR ''Import failed: %s'' [AStr m] w)
      | CsvError m \<Rightarrow> (Inr False, log_to ERROR ''Import failed: %s'' [AStr m] w)
      | _ \<Rightarrow> (Inl e, w))"

fun executemany ::
  "'f engine \<Rightarrow> string \<Rightarrow> 'f connection \<Rightarrow> csv_item list \<Rightarrow> exn + 'f connection" where
  "executemany eng sql db [] = Inr db"
| "executemany eng sql db (Fields r # rdr) =
     (case execute eng (store db) sql (map SText r) of
        Inl e \<Rightarrow> Inl e
      | Inr (f, cur) \<Rightarrow>
          executemany eng sql
            \<lparr>store = f, total_changes = total_changes db + cur_changes cur\<rparr> rdr)"
| "executemany eng sql db (Malformed m # rdr) = Inl (CsvError m)"
| "executemany eng sql db (Undecodable # rdr) = Inl UnicodeDecodeError"

definition import_csv :: "'f engine \<Rightarrow> 'f world \<Rightarrow> path \<Rightarrow> (exn + bool) \<times> 'f world" where
  \<comment> \<open>The result is the value returned (\<open>Inr\<close>) or the exception raised (\<open>Inl\<close>), with the
      world it leaves. Leaving the \<open>with\<close> block by an exception rolls the inserts back;
      what the script did stays.\<close>
  "import_csv eng w csv_file =
     (case files w csv_file of
        None \<Rightarrow> (Inr False, log_to ERROR ''CSV not found: %s'' [APath csv_file] w)
      | Some Directory \<Rightarrow> (Inl OSError, w)
      | Some (File items) \<Rightarrow>
          (let db = connect eng w;
               w1 = w\<lparr>database := Some (store db)\<rparr>
           in case items of
                [] \<Rightarrow> (Inl StopIteration, w1)
              | Undecodable # rdr \<Rightarrow> (Inl UnicodeDecodeError, w1)
              | Malformed m # rdr \<Rightarrow> handle_import (CsvError m) w1
              | Fields first # rdr \<Rightarrow>
                  (let header = map clean first;
                       cols = join '', '' (map quoted header);
                       (f1, n1, err) =
                          executescript eng (store db)
                            (''DROP TABLE IF EXISTS '' @ quoted TABLE @ '';''
                             @ ''CREATE TABLE '' @ quoted TABLE @ '' ('' @ cols @ '');'');
                       w2 = w\<lparr>database := Some f1\<rparr>
                   in case err of
                        Some e \<Rightarrow> handle_import e w2
                      | None \<Rightarrow>
                          (let placeholders = join '', '' (map (\<lambda>_. ''?'') header)
                           in case executemany eng
                                     (''INSERT INTO '' @ quoted TABLE @ '' ('' @ cols
                                      @ '') VALUES ('' @ placeholders @ '')'')
                                     \<lparr>store = f1, total_changes = n1\<rparr> rdr of
                                Inl e \<Rightarrow> handle_import e w2
                              | Inr db' \<Rightarrow>
                                  (Inr True,
                                   log_to INFO ''Imported %s into %s (%s rows)''
                                     [AStr (name csv_file), APath DATABASE,
                                      ANat (total_changes db')]
                                     (w\<lparr>database := Some (store db')\<rparr>))))))"

section \<open>Store Readiness Check\<close>

definition db_ready :: "'f engine \<Rightarrow> 'f world \<Rightarrow> bool \<times> 'f world" where
  "db_ready eng w =
     (case database w of
        None \<Rightarrow> (False, w)
      | Some f \<Rightarrow>
          (case has_table eng f TABLE of
             Inr found \<Rightarrow> (found, w)
           | Inl m \<Rightarrow> (False, log_to ERROR ''DB check failed: %s'' [AStr m] w)))"

section \<open>Query Executor\<close>

definition run_sql_query :: "'f engine \<Rightarrow> 'f world \<Rightarrow> string \<Rightarrow> (exn + string) \<times> 'f world" where
  \<comment> \<open>Only \<open>sqlite3.Error\<close> is caught. Leaving the \<open>with\<close> block by an exception rolls
      back, leaving it by \<open>return\<close> commits.\<close>
  "run_sql_query eng w query =
     (let (ready, w1) = db_ready eng w
      in if \<not> ready then (Inr ''Database not initialised.'', w1)
         else
           (let db = connect eng w1;
                w2 = w1\<lparr>database := Some (store db)\<rparr>
            in case execute eng (store db) query [] of
                 Inl (SqliteError m) \<Rightarrow> (Inr (''SQL error: '' @ m), w2)
               | Inl e \<Rightarrow> (Inl e, w2)
               | Inr (f, cur) \<Rightarrow>
                   if startswith (upper (lstrip query)) ''SELECT'' then
                     (let rows = map (row_dict (cur_description cur)) (cur_rows cur)
                      in case json_dumps (take 20 rows) of
                           Inl e \<Rightarrow> (Inl e, w2)
                         | Inr text \<Rightarrow>
                             (Inr (if text = [] then ''No rows.'' else text),
                              w1\<lparr>database := Some f\<rparr>))
                   else
                     (Inr (''OK ('' @ str_nat (total_changes db + cur_changes cur)
                           @ '' changes)''),
                      w1\<lparr>database := Some f\<rparr>)))"

section \<open>Tool-Mediated Chat Loop\<close>

record tool_call =
  call_id :: string
  arguments :: string

datatype message =
    System string
  | User string
  | Assistant "string option" "tool_call list option"
      \<comment> \<open>the content, and the tool calls when the key \<open>tool_calls\<close> is present\<close>
  | Tool string string  \<comment> \<open>the call's id and the result\<close>

type_synonym agent = "message list \<Rightarrow> exn + string option \<times> tool_call list option"

datatype outcome = Disabled | Answered | BudgetExceeded | Crashed exn

record 'f chat_state =
  world :: "'f world"
  msgs :: "message list"
  round_trips :: nat  \<comment> \<open>calls of the agent so far\<close>
  executor_calls :: nat  \<comment> \<open>calls of \<open>run_sql_query\<close> so far\<close>

definition PROMPT :: string where
  "PROMPT = ''Assistant for freelance DB. Use run_sql_query on table '' @ CHR 0x27 # TABLE
            @ CHR 0x27 # ''.''"

fun run_calls ::
  "'f engine \<Rightarrow> (string \<Rightarrow> string option) \<Rightarrow> tool_call list \<Rightarrow> 'f chat_state
     \<Rightarrow> exn option \<times> 'f chat_state" where
  \<comment> \<open>\<open>for call in msg["tool_calls"]\<close>; \<open>json_query\<close> is
      \<open>json.loads(arguments)["query"]\<close>, \<open>None\<close> where that raises\<close>
  "run_calls eng json_query [] s = (None, s)"
| "run_calls eng json_query (call # calls) s =
     (case json_query (arguments call) of
        None \<Rightarrow> (Some BadArguments, s)
      | Some sql \<Rightarrow>
          (case run_sql_query eng (world s) sql of
             (Inl e, w) \<Rightarrow>
               (Some e, s\<lparr>world := w, executor_calls := Suc (executor_calls s)\<rparr>)
           | (Inr res, w) \<Rightarrow>
               run_calls eng json_query calls
                 (s\<lparr>world := w, executor_calls := Suc (executor_calls s),
                    msgs := msgs s @ [Tool (call_id call) res]\<rparr>)))"

fun chat_loop ::
  "agent \<Rightarrow> 'f engine \<Rightarrow> (string \<Rightarrow> string option) \<Rightarrow> nat \<Rightarrow> 'f chat_state
     \<Rightarrow> outcome \<times> 'f chat_state" where
  \<comment> \<open>\<open>for _ in range(n)\<close>, then the warning\<close>
  "chat_loop ag eng json_query 0 s =
     (BudgetExceeded, s\<lparr>world := log_to WARNING ''Tool-call budget exceeded.'' [] (world s)\<rparr>)"
| "chat_loop ag eng json_query (Suc n) s =
     (case ag (msgs s) of
        Inl e \<Rightarrow> (Crashed e, s\<lparr>round_trips := Suc (round_trips s)\<rparr>)
      | Inr (content, tool_calls) \<Rightarrow>
          (let s1 = s\<lparr>round_trips := Suc (round_trips s),
                      msgs := msgs s @ [Assistant content tool_calls]\<rparr>
           in case tool_calls of
                None \<Rightarrow>
                  (case content of
                     None \<Rightarrow> (Crashed TypeError, s1)
                   | Some text \<Rightarrow>
                       (Answered,
                        s1\<lparr>world := (world s1)\<lparr>stdout := stdout (world s1)
                              @ [nl # ''Assistant:'' @ nl # text @ [nl]]\<rparr>\<rparr>))
              | Some calls \<Rightarrow>
                  (case run_calls eng json_query calls s1 of
                     (Some e, s2) \<Rightarrow> (Crashed e, s2)
                   | (None, s2) \<Rightarrow> chat_loop ag eng json_query n s2)))"

definition chat ::
  "agent \<Rightarrow> 'f engine \<Rightarrow> (string \<Rightarrow> string option) \<Rightarrow> string \<Rightarrow> 'f world \<Rightarrow> string
     \<Rightarrow> outcome \<times> 'f chat_state" where
  \<comment> \<open>\<open>api_key\<close> is \<open>openai.api_key\<close>\<close>
  "chat ag eng json_query api_key w prompt =
     (if api_key = [] then
        (Disabled,
         \<lparr>world = log_to ERROR ''Chat disabled (no API key).'' [] w, msgs = [],
          round_trips = 0, executor_calls = 0\<rparr>)
      else
        chat_loop ag eng json_query 5
          \<lparr>world = w, msgs = [System PROMPT, User prompt], round_trips = 0,
           executor_calls = 0\<rparr>)"

fun invocations :: "message \<Rightarrow> nat" where
  \<comment> \<open>the tool invocations that a message of the transcript asks for\<close>
  "invocations (Assistant content (Some calls)) = length calls"
| "invocations m = 0"

definition requested :: "message list \<Rightarrow> nat" where
  \<comment> \<open>the tool invocations that the agent has asked for in a transcript\<close>
  "requested ms = sum_list (map invocations ms)"

section \<open>A small engine\<close>

text \<open>
  An engine over files that hold tables (a name, the columns, the rows). It knows three
  statements on the target table and rejects every other one, and it runs no script.
\<close>

type_synonym toy = "(string \<times> string list \<times> sqlvalue list list) list"

definition toy_execute :: "toy \<Rightarrow> string \<Rightarrow> sqlvalue list \<Rightarrow> exn + toy \<times> cursor" where
  "toy_execute f sql params =
     (case map_of f TABLE of
        None \<Rightarrow> Inl (SqliteError (''no such table: '' @ TABLE))
      | Some (cols, rs) \<Rightarrow>
          if sql = ''SELECT * FROM freelancer_earnings_bd'' then
            Inr (f, \<lparr>cur_description = cols, cur_rows = rs, cur_changes = 0\<rparr>)
          else if sql = ''DELETE FROM freelancer_earnings_bd'' then
            Inr (AList.update TABLE (cols, []) f,
                 \<lparr>cur_description = [], cur_rows = [], cur_changes = length rs\<rparr>)
          else if sql = ''INSERT INTO freelancer_earnings_bd VALUES (1)'' \<and> length cols = 1 then
            Inr (AList.update TABLE (cols, rs @ [[SInt 1]]) f,
                 \<lparr>cur_description = [], cur_rows = [], cur_changes = 1\<rparr>)
          else Inl (SqliteError ''not supported''))"

definition toy_engine :: "toy engine" where
  "toy_engine =
     \<lparr>empty_db = [],
      has_table = (\<lambda>f t. Inr (map_of f t \<noteq> None)),
      execute = toy_execute,
      executescript = (\<lambda>f script. (f, 0, Some (SqliteError ''not supported'')))\<rparr>"

definition toy_world :: "sqlvalue list list \<Rightarrow> toy world" where
  \<comment> \<open>no source files, and a store whose target table has one column and the given rows\<close>
  "toy_world rs =
     \<lparr>files = (\<lambda>p. None), database = Some [(TABLE, [''n''], rs)], logs = [], stdout = []\<rparr>"

definition asking_agent :: "nat \<Rightarrow> agent" where
  \<comment> \<open>an agent that on every turn asks for \<open>k\<close> executions of one select\<close>
  "asking_agent k ms =
     Inr (None,
          Some (replicate k
                  \<lparr>call_id = ''call'', arguments = ''SELECT * FROM freelancer_earnings_bd''\<rparr>))"

section \<open>Properties of the Column Normalizer\<close>

lemma isspace_space: "isspace (CHR '' '')"
  by (simp add: isspace_def)

lemma str_replace_one: "str_replace old [new] s = map (\<lambda>c. if c = old then new else c) s"
  by (induction s) (simp_all add: str_replace_def)

lemma str_replace_nil: "str_replace old [] s = filter (\<lambda>c. c \<noteq> old) s"
  by (induction s) (simp_all add: str_replace_def)

lemma str_replace_absent: "old \<notin> set s \<Longrightarrow> str_replace old new s = s"
  by (induction s) (auto simp: str_replace_def)

lemma clean_eq:
  "clean s =
     filter (\<lambda>c. c \<noteq> CHR ''.'')
       (map (\<lambda>c. if c = CHR '' '' \<or> c = CHR ''-'' then CHR ''_'' else c) (strip s))"
proof -
  have "(\<lambda>c. if c = CHR ''-'' then CHR ''_'' else c) \<circ>
          (\<lambda>c. if c = CHR '' '' then CHR ''_'' else c)
        = (\<lambda>c. if c = CHR '' '' \<or> c = CHR ''-'' then CHR ''_'' else c)"
    by (rule ext) simp
  then show ?thesis
    by (simp add: clean_def str_replace_one str_replace_nil)
qed

lemma clean_chars:
  "CHR '' '' \<notin> set (clean s)" "CHR ''-'' \<notin> set (clean s)" "CHR ''.'' \<notin> set (clean s)"
  by (auto simp: clean_eq split: if_splits)

lemma strip_set: "set (strip s) \<subseteq> set s"
  by (auto simp: strip_def dest!: set_dropWhileD)

lemma strip_hd: "strip s \<noteq> [] \<Longrightarrow> \<not> isspace (hd (strip s))"
proof -
  assume ne: "strip s \<noteq> []"
  let ?d = "dropWhile isspace s"
  let ?r = "dropWhile isspace (rev ?d)"
  from ne have r: "?r \<noteq> []" by (simp add: strip_def)
  have "?r = []" if e: "?d = []" unfolding e by simp
  with r have d: "?d \<noteq> []" by blast
  have "hd (rev ?r) = hd ?d"
  proof -
    obtain ys where ys: "rev ?d = ys @ ?r"
      by (metis takeWhile_dropWhile_id)
    then have "?d = rev ?r @ rev ys" by (metis rev_append rev_rev_ident)
    with r show ?thesis by (metis hd_append2 rev_is_Nil_conv)
  qed
  moreover have "\<not> isspace (hd ?d)" using d by (rule hd_dropWhile)
  ultimately show ?thesis by (simp add: strip_def)
qed

lemma strip_last: "strip s \<noteq> [] \<Longrightarrow> \<not> isspace (last (strip s))"
proof -
  assume ne: "strip s \<noteq> []"
  let ?r = "dropWhile isspace (rev (dropWhile isspace s))"
  from ne have r: "?r \<noteq> []" by (simp add: strip_def)
  then have "\<not> isspace (hd ?r)" by (rule hd_dropWhile)
  with r show ?thesis by (simp add: strip_def last_rev)
qed

lemma strip_fixed:
  assumes "s = [] \<or> (\<not> isspace (hd s) \<and> \<not> isspace (last s))"
  shows "strip s = s"
proof (cases s)
  case Nil
  then show ?thesis by (simp add: strip_def)
next
  case (Cons a t)
  with assms have h: "\<not> isspace (hd s)" and l: "\<not> isspace (last s)" by auto
  from Cons h have 1: "dropWhile isspace s = s" by simp
  from Cons have "rev s \<noteq> []" by simp
  moreover from Cons l have "\<not> isspace (hd (rev s))" by (metis hd_rev list.distinct(1))
  ultimately have "dropWhile isspace (rev s) = rev s"
    by (cases "rev s") auto
  with 1 show ?thesis by (simp add: strip_def)
qed

lemma clean_no_period:
  assumes "CHR ''.'' \<notin> set s"
  shows "clean s = map (\<lambda>c. if c = CHR '' '' \<or> c = CHR ''-'' then CHR ''_'' else c) (strip s)"
proof -
  from assms strip_set have "CHR ''.'' \<notin> set (strip s)" by blast
  then show ?thesis by (auto simp: clean_eq filter_id_conv)
qed

lemma underscore_not_space: "\<not> isspace (CHR ''_'')"
  by (simp add: isspace_def)

lemma clean_ends_no_period:
  assumes "CHR ''.'' \<notin> set s" and "clean s \<noteq> []"
  shows "\<not> isspace (hd (clean s))" and "\<not> isspace (last (clean s))"
proof -
  let ?f = "\<lambda>c. if c = CHR '' '' \<or> c = CHR ''-'' then CHR ''_'' else c"
  have c: "clean s = map ?f (strip s)" using assms(1) by (rule clean_no_period)
  with assms(2) have ne: "strip s \<noteq> []" by auto
  have keep: "\<not> isspace x \<Longrightarrow> \<not> isspace (?f x)" for x
    by (simp add: underscore_not_space)
  from ne show "\<not> isspace (hd (clean s))"
    using keep [OF strip_hd [OF ne]] by (simp add: c hd_map)
  from ne show "\<not> isspace (last (clean s))"
    using keep [OF strip_last [OF ne]] by (simp add: c last_map)
qed

lemma clean_clean_strip: "clean (clean s) = strip (clean s)"
proof -
  have "set (strip (clean s)) \<subseteq> set (clean s)" by (rule strip_set)
  with clean_chars [of s] have
    a: "CHR '' '' \<notin> set (strip (clean s))" and
    b: "CHR ''-'' \<notin> set (strip (clean s))" and
    c: "CHR ''.'' \<notin> set (strip (clean s))" by blast+
  show ?thesis
    unfolding clean_def [of "clean s"]
    by (simp add: str_replace_absent a b c)
qed

lemma hd_filter_dropWhile:
  "filter P xs \<noteq> [] \<Longrightarrow> hd (filter P xs) = hd (dropWhile (\<lambda>x. \<not> P x) xs)"
  by (induction xs) auto

lemma clean_map_filter:
  "clean s =
     map (\<lambda>c. if c = CHR '' '' \<or> c = CHR ''-'' then CHR ''_'' else c)
       (filter (\<lambda>c. c \<noteq> CHR ''.'') (strip s))"
proof -
  have "(\<lambda>c. c \<noteq> CHR ''.'') \<circ> (\<lambda>c. if c = CHR '' '' \<or> c = CHR ''-'' then CHR ''_'' else c)
        = (\<lambda>c. c \<noteq> CHR ''.'')"
    by (rule ext) simp
  then show ?thesis by (simp add: clean_eq filter_map)
qed

lemma isspace_replaced:
  "isspace (if c = CHR '' '' \<or> c = CHR ''-'' then CHR ''_'' else c)
     \<longleftrightarrow> isspace c \<and> c \<noteq> CHR '' ''"
  by (auto simp: isspace_def)

lemma clean_hd:
  assumes "clean s \<noteq> []"
  shows "isspace (hd (clean s))
     \<longleftrightarrow> isspace (hd (dropWhile (\<lambda>c. c = CHR ''.'') (strip s)))
         \<and> hd (dropWhile (\<lambda>c. c = CHR ''.'') (strip s)) \<noteq> CHR '' ''"
proof -
  let ?f = "\<lambda>c. if c = CHR '' '' \<or> c = CHR ''-'' then CHR ''_'' else c"
  let ?k = "filter (\<lambda>c. c \<noteq> CHR ''.'') (strip s)"
  from assms have ne: "?k \<noteq> []" by (simp add: clean_map_filter)
  then have "hd (clean s) = ?f (hd ?k)" by (simp add: clean_map_filter hd_map)
  also have "hd ?k = hd (dropWhile (\<lambda>c. c = CHR ''.'') (strip s))"
    using hd_filter_dropWhile [OF ne] by simp
  finally show ?thesis by (simp only: isspace_replaced)
qed

lemma clean_last:
  assumes "clean s \<noteq> []"
  shows "isspace (last (clean s))
     \<longleftrightarrow> isspace (hd (dropWhile (\<lambda>c. c = CHR ''.'') (rev (strip s))))
         \<and> hd (dropWhile (\<lambda>c. c = CHR ''.'') (rev (strip s))) \<noteq> CHR '' ''"
proof -
  let ?f = "\<lambda>c. if c = CHR '' '' \<or> c = CHR ''-'' then CHR ''_'' else c"
  let ?k = "filter (\<lambda>c. c \<noteq> CHR ''.'') (strip s)"
  let ?r = "filter (\<lambda>c. c \<noteq> CHR ''.'') (rev (strip s))"
  from assms have ne: "?k \<noteq> []" by (simp add: clean_map_filter)
  then have r: "?r \<noteq> []" by (simp add: rev_filter [symmetric])
  from ne have "last (clean s) = ?f (last ?k)" by (simp add: clean_map_filter last_map)
  also have "last ?k = hd ?r"
    using ne by (simp add: rev_filter [symmetric] hd_rev)
  also have "hd ?r = hd (dropWhile (\<lambda>c. c = CHR ''.'') (rev (strip s)))"
    using hd_filter_dropWhile [OF r] by simp
  finally show ?thesis by (simp only: isspace_replaced)
qed

lemma clean_ends:
  assumes "strip s = [] \<or> (hd (strip s) \<noteq> CHR ''.'' \<and> last (strip s) \<noteq> CHR ''.'')"
  shows "clean s = [] \<or> (\<not> isspace (hd (clean s)) \<and> \<not> isspace (last (clean s)))"
proof (cases "strip s = []")
  case True
  then show ?thesis by (simp add: clean_eq)
next
  case False
  with assms have h: "hd (strip s) \<noteq> CHR ''.''" and l: "last (strip s) \<noteq> CHR ''.''"
    by blast+
  from False h have dh: "dropWhile (\<lambda>c. c = CHR ''.'') (strip s) = strip s"
    by (cases "strip s") auto
  from False l have dl: "dropWhile (\<lambda>c. c = CHR ''.'') (rev (strip s)) = rev (strip s)"
    by (cases "rev (strip s)") (auto simp: last_rev [symmetric] dest: arg_cong [where f = hd])
  from False h have "filter (\<lambda>c. c \<noteq> CHR ''.'') (strip s) \<noteq> []"
    by (cases "strip s") auto
  then have ne: "clean s \<noteq> []" by (simp add: clean_map_filter)
  from False have hr: "hd (rev (strip s)) = last (strip s)" by (simp add: hd_rev)
  show ?thesis
    using clean_hd [OF ne] clean_last [OF ne] strip_hd [OF False] strip_last [OF False]
    by (simp add: dh dl hr)
qed

section \<open>Claims about the Column Normalizer\<close>

text \<open>
  Claim C6, as amended. \<open>_clean\<close> trims surrounding whitespace, then turns each space
  and each hyphen into an underscore, then removes each period. For every token the output
  holds no space, no hyphen and no period. The output starts (ends) with whitespace exactly
  when the first (last) character of the trimmed token that is not a period is whitespace
  other than the space. So when the trimmed token neither starts nor ends with a period,
  the output neither starts nor ends with whitespace.
\<close>

theorem clean_output:
  "clean s =
     filter (\<lambda>c. c \<noteq> CHR ''.'')
       (map (\<lambda>c. if c = CHR '' '' \<or> c = CHR ''-'' then CHR ''_'' else c) (strip s))
   \<and> CHR '' '' \<notin> set (clean s) \<and> CHR ''-'' \<notin> set (clean s) \<and> CHR ''.'' \<notin> set (clean s)
   \<and> (clean s \<noteq> [] \<longrightarrow>
        (isspace (hd (clean s))
           \<longleftrightarrow> isspace (hd (dropWhile (\<lambda>c. c = CHR ''.'') (strip s)))
               \<and> hd (dropWhile (\<lambda>c. c = CHR ''.'') (strip s)) \<noteq> CHR '' '')
        \<and> (isspace (last (clean s))
             \<longleftrightarrow> isspace (hd (dropWhile (\<lambda>c. c = CHR ''.'') (rev (strip s))))
                 \<and> hd (dropWhile (\<lambda>c. c = CHR ''.'') (rev (strip s))) \<noteq> CHR '' ''))
   \<and> (strip s = [] \<or> (hd (strip s) \<noteq> CHR ''.'' \<and> last (strip s) \<noteq> CHR ''.'')
        \<longrightarrow> clean s = [] \<or> (\<not> isspace (hd (clean s)) \<and> \<not> isspace (last (clean s))))"
  using clean_eq [of s] clean_chars [of s] clean_hd [of s] clean_last [of s] clean_ends [of s]
  by blast

text \<open>
  The theorem at the header \<open>" Avg. Rate-usd "\<close>, whose period is inside, and at the token
  of a period, a tab and \<open>x\<close>.
\<close>

theorem clean_output_witness:
  "strip '' Avg. Rate-usd '' = ''Avg. Rate-usd''
   \<and> hd ''Avg. Rate-usd'' \<noteq> CHR ''.'' \<and> last ''Avg. Rate-usd'' \<noteq> CHR ''.''
   \<and> clean '' Avg. Rate-usd '' = ''Avg_Rate_usd''
   \<and> \<not> isspace (hd (clean '' Avg. Rate-usd ''))
   \<and> \<not> isspace (last (clean '' Avg. Rate-usd ''))
   \<and> strip [CHR ''.'', CHR 0x09, CHR ''x''] = [CHR ''.'', CHR 0x09, CHR ''x'']
   \<and> clean [CHR ''.'', CHR 0x09, CHR ''x''] \<noteq> []
   \<and> isspace (hd (clean [CHR ''.'', CHR 0x09, CHR ''x'']))
   \<and> \<not> isspace (last (clean [CHR ''.'', CHR 0x09, CHR ''x'']))"
proof -
  have t: "strip '' Avg. Rate-usd '' = ''Avg. Rate-usd''"
    by (simp add: strip_def isspace_def)
  have e: "clean '' Avg. Rate-usd '' = ''Avg_Rate_usd''"
    by (simp add: clean_def strip_def str_replace_def isspace_def)
  have h: "hd ''Avg. Rate-usd'' \<noteq> CHR ''.'' \<and> last ''Avg. Rate-usd'' \<noteq> CHR ''.''" by simp
  have ne: "clean '' Avg. Rate-usd '' \<noteq> []" by (simp add: e)
  from t h have c: "strip '' Avg. Rate-usd '' = []
      \<or> (hd (strip '' Avg. Rate-usd '') \<noteq> CHR ''.'' \<and> last (strip '' Avg. Rate-usd '') \<noteq> CHR ''.'')"
    by simp
  from clean_output [of "'' Avg. Rate-usd ''"] c ne
  have 1: "\<not> isspace (hd (clean '' Avg. Rate-usd ''))
           \<and> \<not> isspace (last (clean '' Avg. Rate-usd ''))" by blast
  let ?x = "[CHR ''.'', CHR 0x09, CHR ''x'']"
  have t2: "strip ?x = ?x" by (simp add: strip_def isspace_def)
  have ne2: "clean ?x \<noteq> []" by (simp add: clean_def strip_def str_replace_def isspace_def)
  have d1: "isspace (hd (dropWhile (\<lambda>c. c = CHR ''.'') (strip ?x)))
            \<and> hd (dropWhile (\<lambda>c. c = CHR ''.'') (strip ?x)) \<noteq> CHR '' ''"
    by (simp add: t2) (simp add: isspace_def)
  have d2: "\<not> isspace (hd (dropWhile (\<lambda>c. c = CHR ''.'') (rev (strip ?x))))"
    by (simp add: t2) (simp add: isspace_def)
  from clean_output [of ?x] ne2 d1 d2
  have 2: "isspace (hd (clean ?x)) \<and> \<not> isspace (last (clean ?x))" by blast
  from t h e 1 t2 ne2 2 show ?thesis by blast
qed

text \<open>
  Claim C6 as it was stated fails: the token of a period, a tab and \<open>x\<close> is not
  trimmed, since it starts with the period, and removing the period leaves the tab in front.
\<close>

theorem clean_whitespace_counterexample:
  "CHR ''.'' \<in> set [CHR ''.'', CHR 0x09, CHR ''x'']
   \<and> clean [CHR ''.'', CHR 0x09, CHR ''x''] = [CHR 0x09, CHR ''x'']
   \<and> isspace (hd (clean [CHR ''.'', CHR 0x09, CHR ''x'']))"
  by (simp add: clean_def strip_def str_replace_def isspace_def)

text \<open>
  Claim C10, as amended. Normalizing a normalized identifier again only trims whitespace
  from its ends: \<open>_clean(_clean(s)) = _clean(s).strip()\<close>. When \<open>s\<close> holds no period,
  \<open>_clean(_clean(s)) = _clean(s)\<close>.
\<close>

theorem clean_twice:
  "clean (clean s) = strip (clean s) \<and> (CHR ''.'' \<notin> set s \<longrightarrow> clean (clean s) = clean s)"
proof
  show "clean (clean s) = strip (clean s)" by (rule clean_clean_strip)
  show "CHR ''.'' \<notin> set s \<longrightarrow> clean (clean s) = clean s"
  proof
    assume np: "CHR ''.'' \<notin> set s"
    have "strip (clean s) = clean s"
      using clean_ends_no_period [OF np] by (intro strip_fixed) blast
    then show "clean (clean s) = clean s" by (simp add: clean_clean_strip)
  qed
qed

text \<open>The theorem at the header \<open>" total-earned usd "\<close>.\<close>

theorem clean_twice_witness:
  "CHR ''.'' \<notin> set '' total-earned usd '' \<and> clean '' total-earned usd '' = ''total_earned_usd''
   \<and> clean (clean '' total-earned usd '') = clean '' total-earned usd ''"
proof -
  have h: "CHR ''.'' \<notin> set '' total-earned usd ''" by simp
  have e: "clean '' total-earned usd '' = ''total_earned_usd''"
    by (simp add: clean_def strip_def str_replace_def isspace_def)
  from clean_twice [of "'' total-earned usd ''"] h
  have "clean (clean '' total-earned usd '') = clean '' total-earned usd ''" by blast
  with h e show ?thesis by blast
qed

text \<open>
  Claim C10 as it was stated fails at the token of a period, a tab and \<open>x\<close>: the first
  pass gives a tab and \<open>x\<close>, the second pass gives \<open>x\<close>.
\<close>

theorem clean_idempotent_counterexample:
  "clean (clean [CHR ''.'', CHR 0x09, CHR ''x'']) \<noteq> clean [CHR ''.'', CHR 0x09, CHR ''x'']"
  by (simp add: clean_def strip_def str_replace_def isspace_def)

section \<open>Properties of the store operations\<close>

lemma db_ready_keeps:
  "database (snd (db_ready eng w)) = database w"
  "files (snd (db_ready eng w)) = files w"
  "stdout (snd (db_ready eng w)) = stdout w"
  by (simp_all add: db_ready_def log_to_def split: option.splits sum.splits)

lemma db_ready_true:
  "fst (db_ready eng w) = (\<exists>f. database w = Some f \<and> has_table eng f TABLE = Inr True)"
  by (auto simp: db_ready_def split: option.splits sum.splits)

lemma db_ready_ready:
  assumes "database w = Some f" and "has_table eng f TABLE = Inr True"
  shows "db_ready eng w = (True, w)"
  using assms by (simp add: db_ready_def)

lemma same_database: "database w = Some f \<Longrightarrow> w\<lparr>database := Some f\<rparr> = w"
  by (cases w) simp

lemma db_ready_execute: "db_ready (eng\<lparr>execute := ex\<rparr>) w = db_ready eng w"
  by (simp add: db_ready_def split: option.splits)

section \<open>Claims about the Store Readiness Check and the Query Executor\<close>

text \<open>
  Claim C8. \<open>db_ready\<close> returns true exactly when the store file exists and the catalog
  lookup finds the target table. An error of the store while looking makes it return
  false. It leaves the store file as it was (a missing file stays missing) and the source
  files too.
\<close>
theorem db_ready_iff:
  "fst (db_ready eng w) = (\<exists>f. database w = Some f \<and> has_table eng f TABLE = Inr True)
   \<and> (\<forall>f m. database w = Some f \<and> has_table eng f TABLE = Inl m \<longrightarrow> \<not> fst (db_ready eng w))
   \<and> database (snd (db_ready eng w)) = database w
   \<and> files (snd (db_ready eng w)) = files w"
  using db_ready_true [of eng w] db_ready_keeps [of eng w] by auto

text \<open>
  The theorem at a store whose lookup fails, at a store with the table, and at a missing
  store file.
\<close>

theorem db_ready_iff_witness:
  "database (toy_world []) = Some [(TABLE, [''n''], [])]
   \<and> has_table (toy_engine\<lparr>has_table := \<lambda>f t. Inl ''file is not a database''\<rparr>)
        [(TABLE, [''n''], [])] TABLE = Inl ''file is not a database''
   \<and> \<not> fst (db_ready (toy_engine\<lparr>has_table := \<lambda>f t. Inl ''file is not a database''\<rparr>)
              (toy_world []))
   \<and> fst (db_ready toy_engine (toy_world []))
   \<and> \<not> fst (db_ready toy_engine ((toy_world [])\<lparr>database := None\<rparr>))
   \<and> database (snd (db_ready toy_engine ((toy_world [])\<lparr>database := None\<rparr>))) = None"
proof -
  let ?E = "toy_engine\<lparr>has_table := \<lambda>f t. Inl ''file is not a database''\<rparr>"
  have d: "database (toy_world []) = Some [(TABLE, [''n''], [])]"
    by (simp add: toy_world_def)
  have h: "has_table ?E [(TABLE, [''n''], [])] TABLE = Inl ''file is not a database''"
    by simp
  have t: "has_table toy_engine [(TABLE, [''n''], [])] TABLE = Inr True"
    by (simp add: toy_engine_def)
  have n: "database ((toy_world [])\<lparr>database := None\<rparr>) = None" by simp
  from db_ready_iff [of ?E "toy_world []"] d h
  have 1: "\<not> fst (db_ready ?E (toy_world []))" by blast
  from db_ready_iff [of toy_engine "toy_world []"] d t
  have 2: "fst (db_ready toy_engine (toy_world []))" by blast
  from db_ready_iff [of toy_engine "(toy_world [])\<lparr>database := None\<rparr>"] n
  have 3: "\<not> fst (db_ready toy_engine ((toy_world [])\<lparr>database := None\<rparr>))"
    and 4: "database (snd (db_ready toy_engine ((toy_world [])\<lparr>database := None\<rparr>))) = None"
    by simp_all
  from d h 1 2 3 4 show ?thesis by blast
qed

text \<open>
  Claim C9. When the store file is missing, or the lookup does not find the target table,
  \<open>run_sql_query\<close> returns the text \<open>Database not initialised.\<close> and leaves the store file
  as it was; the result does not depend on what executing a statement would do, so the
  statement is not executed.
\<close>
theorem run_sql_query_unready:
  assumes "database w = None \<or> (\<exists>f. database w = Some f \<and> has_table eng f TABLE \<noteq> Inr True)"
  shows "fst (run_sql_query eng w query) = Inr ''Database not initialised.''
         \<and> database (snd (run_sql_query eng w query)) = database w
         \<and> (\<forall>ex. run_sql_query (eng\<lparr>execute := ex\<rparr>) w query = run_sql_query eng w query)"
proof -
  from assms have nr: "\<not> fst (db_ready eng w)"
    by (auto simp: db_ready_true)
  obtain r w1 where rw: "db_ready eng w = (r, w1)" by (cases "db_ready eng w")
  with nr have r: "\<not> r" by simp
  from rw db_ready_keeps(1) [of eng w] have w1: "database w1 = database w" by simp
  have q: "run_sql_query e w query = (Inr ''Database not initialised.'', w1)"
    if "db_ready e w = (r, w1)" for e :: "'a engine"
    using that r by (simp add: run_sql_query_def)
  have "run_sql_query eng w query = (Inr ''Database not initialised.'', w1)"
    using rw by (rule q)
  moreover have "run_sql_query (eng\<lparr>execute := ex\<rparr>) w query
                   = (Inr ''Database not initialised.'', w1)" for ex
    using rw by (intro q) (simp add: db_ready_execute)
  ultimately show ?thesis using w1 by simp
qed

text \<open>
  The theorem at a missing store file, and at a store file that holds no table.
\<close>

theorem run_sql_query_unready_witness:
  "database ((toy_world [])\<lparr>database := None\<rparr>) = None
   \<and> fst (run_sql_query toy_engine ((toy_world [])\<lparr>database := None\<rparr>)
            ''SELECT * FROM freelancer_earnings_bd'') = Inr ''Database not initialised.''
   \<and> database (snd (run_sql_query toy_engine ((toy_world [])\<lparr>database := None\<rparr>)
            ''SELECT * FROM freelancer_earnings_bd'')) = None
   \<and> database ((toy_world [])\<lparr>database := Some []\<rparr>) = Some []
   \<and> has_table toy_engine [] TABLE \<noteq> Inr True
   \<and> fst (run_sql_query toy_engine ((toy_world [])\<lparr>database := Some []\<rparr>)
            ''DELETE FROM freelancer_earnings_bd'') = Inr ''Database not initialised.''
   \<and> database (snd (run_sql_query toy_engine ((toy_world [])\<lparr>database := Some []\<rparr>)
            ''DELETE FROM freelancer_earnings_bd'')) = Some []"
proof -
  have h: "database ((toy_world [])\<lparr>database := None\<rparr>) = None" by simp
  then have "database ((toy_world [])\<lparr>database := None\<rparr>) = None
     \<or> (\<exists>f. database ((toy_world [])\<lparr>database := None\<rparr>) = Some f
           \<and> has_table toy_engine f TABLE \<noteq> Inr True)" by blast
  from run_sql_query_unready [OF this, of "''SELECT * FROM freelancer_earnings_bd''"] h
  have 1: "fst (run_sql_query toy_engine ((toy_world [])\<lparr>database := None\<rparr>)
            ''SELECT * FROM freelancer_earnings_bd'') = Inr ''Database not initialised.''
   \<and> database (snd (run_sql_query toy_engine ((toy_world [])\<lparr>database := None\<rparr>)
            ''SELECT * FROM freelancer_earnings_bd'')) = None" by simp
  have d: "database ((toy_world [])\<lparr>database := Some []\<rparr>) = Some []" by simp
  have t: "has_table toy_engine [] TABLE \<noteq> Inr True" by (simp add: toy_engine_def)
  from d t have "database ((toy_world [])\<lparr>database := Some []\<rparr>) = None
     \<or> (\<exists>f. database ((toy_world [])\<lparr>database := Some []\<rparr>) = Some f
           \<and> has_table toy_engine f TABLE \<noteq> Inr True)" by blast
  from run_sql_query_unready [OF this, of "''DELETE FROM freelancer_earnings_bd''"] d
  have 2: "fst (run_sql_query toy_engine ((toy_world [])\<lparr>database := Some []\<rparr>)
            ''DELETE FROM freelancer_earnings_bd'') = Inr ''Database not initialised.''
   \<and> database (snd (run_sql_query toy_engine ((toy_world [])\<lparr>database := Some []\<rparr>)
            ''DELETE FROM freelancer_earnings_bd'')) = Some []" by simp
  from h 1 d t 2 show ?thesis by blast
qed

lemma run_sql_query_ready:
  assumes "database w = Some f" and "has_table eng f TABLE = Inr True"
  shows "run_sql_query eng w query =
     (case execute eng f query [] of
        Inl (SqliteError m) \<Rightarrow> (Inr (''SQL error: '' @ m), w)
      | Inl e \<Rightarrow> (Inl e, w)
      | Inr (f', cur) \<Rightarrow>
          if startswith (upper (lstrip query)) ''SELECT'' then
            (case json_dumps (take 20 (map (row_dict (cur_description cur)) (cur_rows cur))) of
               Inl e \<Rightarrow> (Inl e, w)
             | Inr text \<Rightarrow>
                 (Inr (if text = [] then ''No rows.'' else text), w\<lparr>database := Some f'\<rparr>))
          else
            (Inr (''OK ('' @ str_nat (cur_changes cur) @ '' changes)''),
             w\<lparr>database := Some f'\<rparr>))"
  using assms same_database [OF assms(1)]
  by (simp add: run_sql_query_def db_ready_ready [OF assms] connect_def Let_def
      split: sum.splits exn.splits prod.splits)





text \<open>
  Claim C2, as amended. For every successful non-select statement executed through
  \<open>run_sql_query\<close> on a ready store, the count in the confirmation string is the number
  of rows that this statement changed: each call opens a connection of its own, whose
  change counter starts at zero. The statement's effect on the store file is committed.
\<close>

theorem run_sql_query_change_count:
  assumes "database w = Some f" and "has_table eng f TABLE = Inr True"
    and "execute eng f query [] = Inr (f', cur)"
    and "\<not> startswith (upper (lstrip query)) ''SELECT''"
  shows "run_sql_query eng w query =
           (Inr (''OK ('' @ str_nat (cur_changes cur) @ '' changes)''), w\<lparr>database := Some f'\<rparr>)"
  by (simp add: run_sql_query_ready [OF assms(1,2)] assms(3,4))

text \<open>The theorem at a statement that deletes the two rows of the target table.\<close>

theorem run_sql_query_change_count_witness:
  "database (toy_world [[SInt 1], [SInt 2]]) = Some [(TABLE, [''n''], [[SInt 1], [SInt 2]])]
   \<and> has_table toy_engine [(TABLE, [''n''], [[SInt 1], [SInt 2]])] TABLE = Inr True
   \<and> execute toy_engine [(TABLE, [''n''], [[SInt 1], [SInt 2]])]
        ''DELETE FROM freelancer_earnings_bd'' []
      = Inr ([(TABLE, [''n''], [])],
             \<lparr>cur_description = [], cur_rows = [], cur_changes = 2\<rparr>)
   \<and> \<not> startswith (upper (lstrip ''DELETE FROM freelancer_earnings_bd'')) ''SELECT''
   \<and> run_sql_query toy_engine (toy_world [[SInt 1], [SInt 2]])
        ''DELETE FROM freelancer_earnings_bd''
      = (Inr ''OK (2 changes)'', toy_world [])"
proof -
  have d: "database (toy_world [[SInt 1], [SInt 2]])
             = Some [(TABLE, [''n''], [[SInt 1], [SInt 2]])]"
    by (simp add: toy_world_def)
  have t: "has_table toy_engine [(TABLE, [''n''], [[SInt 1], [SInt 2]])] TABLE = Inr True"
    by (simp add: toy_engine_def)
  have x: "execute toy_engine [(TABLE, [''n''], [[SInt 1], [SInt 2]])]
        ''DELETE FROM freelancer_earnings_bd'' []
      = Inr ([(TABLE, [''n''], [])],
             \<lparr>cur_description = [], cur_rows = [], cur_changes = 2\<rparr>)"
    by (simp add: toy_engine_def toy_execute_def TABLE_def)
  have s: "\<not> startswith (upper (lstrip ''DELETE FROM freelancer_earnings_bd'')) ''SELECT''"
    by (simp add: startswith_def upper_def lstrip_def isspace_def toupper_def)
  have n: "str_nat 2 = ''2''" by (simp add: str_nat.simps)
  have w: "(toy_world [[SInt 1], [SInt 2]])\<lparr>database := Some [(TABLE, [''n''], [])]\<rparr>
             = toy_world []"
    by (simp add: toy_world_def)
  from run_sql_query_change_count [OF d t x s]
  have "run_sql_query toy_engine (toy_world [[SInt 1], [SInt 2]])
        ''DELETE FROM freelancer_earnings_bd''
      = (Inr ''OK (2 changes)'', toy_world [])"
    by (simp add: n w)
  with d t x s show ?thesis by blast
qed

text \<open>
  Claim C2 as it was stated fails. On a target table of two rows, a first call deletes
  the rows and reports 2 changes; the next call inserts one row and reports 1 change.
  Both statements succeed and neither is a select, and the count goes down.
\<close>

theorem change_count_decreases_counterexample:
  "(let (r1, w1) = run_sql_query toy_engine (toy_world [[SInt 1], [SInt 2]])
                     ''DELETE FROM freelancer_earnings_bd'';
        (r2, w2) = run_sql_query toy_engine w1
                     ''INSERT INTO freelancer_earnings_bd VALUES (1)''
    in r1 = Inr ''OK (2 changes)'' \<and> r2 = Inr ''OK (1 changes)''
       \<and> database w2 = Some [(TABLE, [''n''], [[SInt 1]])])"
  by (simp add: run_sql_query_def db_ready_def toy_engine_def toy_world_def toy_execute_def
      connect_def TABLE_def startswith_def upper_def lstrip_def isspace_def toupper_def
      str_nat.simps)

lemma json_dumps_not_empty: "json_dumps rows \<noteq> Inr []"
  by (simp add: json_dumps_def split: sum.splits)

text \<open>
  Claim C1, which the code breaks. A select on a ready store whose target table has no
  rows returns \<open>[]\<close>, the text of the empty list: \<open>json.dumps\<close> never gives the empty
  string, so the \<open>or "No rows."\<close> of the source is never taken.
\<close>

theorem run_sql_query_no_rows:
  "run_sql_query toy_engine (toy_world []) ''SELECT * FROM freelancer_earnings_bd''
     = (Inr ''[]'', toy_world [])
   \<and> ''[]'' \<noteq> ''No rows.''"
  by (simp add: run_sql_query_def db_ready_def toy_engine_def toy_world_def toy_execute_def
      connect_def TABLE_def startswith_def upper_def lstrip_def isspace_def toupper_def
      json_dumps_def)

section \<open>Claims about the Dataset Importer\<close>

text \<open>
  Claim C5. For a path at which there is no file, \<open>import_csv\<close> returns \<open>False\<close>; it logs
  that the file was not found and changes nothing else, so the store file is as it was.
\<close>

theorem import_csv_missing:
  assumes "files w csv_file = None"
  shows "import_csv eng w csv_file
           = (Inr False, w\<lparr>logs := logs w @ [(ERROR, ''CSV not found: %s'', [APath csv_file])]\<rparr>)
         \<and> database (snd (import_csv eng w csv_file)) = database w"
  using assms by (simp add: import_csv_def log_to_def)

text \<open>The theorem at a world without source files, with and without a store file.\<close>

theorem import_csv_missing_witness:
  "files (toy_world []) [''freelancer_earnings_bd.csv''] = None
   \<and> fst (import_csv toy_engine (toy_world []) [''freelancer_earnings_bd.csv'']) = Inr False
   \<and> database (snd (import_csv toy_engine (toy_world []) [''freelancer_earnings_bd.csv'']))
       = Some [(TABLE, [''n''], [])]
   \<and> database (snd (import_csv toy_engine ((toy_world [])\<lparr>database := None\<rparr>)
                       [''freelancer_earnings_bd.csv''])) = None"
proof -
  have h: "files (toy_world []) [''freelancer_earnings_bd.csv''] = None"
    by (simp add: toy_world_def)
  have h': "files ((toy_world [])\<lparr>database := None\<rparr>) [''freelancer_earnings_bd.csv''] = None"
    by (simp add: toy_world_def)
  have d: "database (toy_world []) = Some [(TABLE, [''n''], [])]"
    by (simp add: toy_world_def)
  from import_csv_missing [OF h, of toy_engine] import_csv_missing [OF h', of toy_engine] h d
  show ?thesis by simp
qed

text \<open>
  Claim C4, which the code breaks. For a source file that exists and holds no record,
  \<open>import_csv\<close> does not return: \<open>next(rdr)\<close> raises \<open>StopIteration\<close>, which the handler
  for \<open>csv.Error\<close> and \<open>sqlite3.Error\<close> lets through. The store file has been created by
  then.
\<close>

theorem import_csv_empty_file:
  "import_csv toy_engine
     \<lparr>files = [[''freelancer_earnings_bd.csv''] \<mapsto> File []], database = None, logs = [],
      stdout = []\<rparr>
     [''freelancer_earnings_bd.csv'']
   = (Inl StopIteration,
      \<lparr>files = [[''freelancer_earnings_bd.csv''] \<mapsto> File []], database = Some [], logs = [],
       stdout = []\<rparr>)"
  by (simp add: import_csv_def connect_def toy_engine_def)

section \<open>Properties of the chat loop\<close>










lemma toy_select_empty:
  "run_sql_query toy_engine (toy_world []) ''SELECT * FROM freelancer_earnings_bd''
     = (Inr ''[]'', toy_world [])"
  by (simp add: run_sql_query_def db_ready_def toy_engine_def toy_world_def toy_execute_def
      connect_def TABLE_def startswith_def upper_def lstrip_def isspace_def toupper_def
      json_dumps_def)







lemma chat_asking_twice_requested:
  "requested (msgs (snd (chat (asking_agent 2) toy_engine Some ''key'' (toy_world [])
     ''how many rows?''))) = 10"
  by (simp add: chat_def asking_agent_def toy_select_empty eval_nat_numeral requested_def)

section \<open>Claims about the chat loop\<close>




end
